theory Spec2Isabelle
  imports Main "HOL-Library.Sublist" "HOL-Library.Multiset"
begin

section \<open>Values of the script\<close>

text \<open>
  \<^verbatim>\<open>generate.py\<close> moves decoded JSON around: the payload built from the transcript file,
  the bodies returned by \<^verbatim>\<open>response.json()\<close>, the error descriptors of
  \<^verbatim>\<open>execute_interaction\<close>. A Python \<^verbatim>\<open>str\<close> is a \<open>string\<close> holding its UTF-8
  bytes; a \<^verbatim>\<open>dict\<close> is an association list looked up by key (a decoded object has
  each key once). Numbers with a fraction are not represented: nothing in the script
  computes with numbers.
\<close>

datatype json =
    JNull
  | JBool bool
  | JNum int
  | JStr string
  | JArr "json list"
  | JObj "(string \<times> json) list"

text \<open>
  Exceptions are values. \<open>Exception cls msg\<close> is any instance of a subclass of Python's
  \<^verbatim>\<open>Exception\<close> (class name, \<^verbatim>\<open>str(e)\<close>); \<open>SystemExit\<close>, raised by \<^verbatim>\<open>sys.exit\<close>, is
  not one and passes through \<^verbatim>\<open>except Exception\<close>.
\<close>

datatype exn =
    SystemExit int
  | Exception string string

record request =
  url :: string
  headers :: "(string \<times> string) list"
  json :: json
  timeout :: nat

record outline_section =
  title :: string
  subsections :: json

text \<open>What a run does to the outside world, in order.\<close>

datatype event =
    Print json
  | HttpPost request
  | SaveDoc string "outline_section list"
  | RunProcess "string list"

type_synonym 'a result = "(exn + 'a) \<times> event list"

definition then_do :: "'a result \<Rightarrow> ('a \<Rightarrow> 'b result) \<Rightarrow> 'b result" where
  "then_do m f =
     (case m of
        (Inl e, t) \<Rightarrow> (Inl e, t)
      | (Inr x, t) \<Rightarrow> (case f x of (r, t') \<Rightarrow> (r, t @ t')))"

definition quiet :: "exn + 'a \<Rightarrow> 'a result" where
  "quiet r = (r, [])"

subsection \<open>The Python operations the script applies to decoded JSON\<close>

fun type_name :: "json \<Rightarrow> string" where
  "type_name JNull = ''NoneType''"
| "type_name (JBool _) = ''bool''"
| "type_name (JNum _) = ''int''"
| "type_name (JStr _) = ''str''"
| "type_name (JArr _) = ''list''"
| "type_name (JObj _) = ''dict''"

definition quoted :: "string \<Rightarrow> string" where
  "quoted s = [CHR 0x27] @ s @ [CHR 0x27]"

text \<open>\<^verbatim>\<open>v.get(key, default)\<close>: only a dict has the method.\<close>

fun py_get :: "json \<Rightarrow> string \<Rightarrow> json \<Rightarrow> exn + json" where
  "py_get (JObj kv) key dflt = Inr (case map_of kv key of None \<Rightarrow> dflt | Some v \<Rightarrow> v)"
| "py_get v key dflt =
     Inl (Exception ''AttributeError''
            (quoted (type_name v) @ '' object has no attribute '' @ quoted ''get''))"

text \<open>\<^verbatim>\<open>key in v\<close> for a string key: membership in a dict's keys, in a list's items,
  substring of a string; the other values are not iterable.\<close>

fun py_in :: "string \<Rightarrow> json \<Rightarrow> exn + bool" where
  "py_in key (JObj kv) = Inr (key \<in> set (map fst kv))"
| "py_in key (JArr xs) = Inr (JStr key \<in> set xs)"
| "py_in key (JStr s) = Inr (sublist key s)"
| "py_in key v =
     Inl (Exception ''TypeError''
            (''argument of type '' @ quoted (type_name v) @ '' is not iterable''))"

text \<open>\<^verbatim>\<open>v[key]\<close> for a string key. The messages are worded as CPython up to 3.10
  words them; later versions add to the one for a string.\<close>

fun py_getitem :: "json \<Rightarrow> string \<Rightarrow> exn + json" where
  "py_getitem (JObj kv) key =
     (case map_of kv key of
        None \<Rightarrow> Inl (Exception ''KeyError'' (quoted key))
      | Some v \<Rightarrow> Inr v)"
| "py_getitem (JArr xs) key =
     Inl (Exception ''TypeError'' ''list indices must be integers or slices, not str'')"
| "py_getitem (JStr s) key =
     Inl (Exception ''TypeError'' ''string indices must be integers'')"
| "py_getitem v key =
     Inl (Exception ''TypeError'' (quoted (type_name v) @ '' object is not subscriptable''))"

text \<open>Truth value, as \<^verbatim>\<open>not v\<close> reads it.\<close>

fun truthy :: "json \<Rightarrow> bool" where
  "truthy JNull = False"
| "truthy (JBool b) = b"
| "truthy (JNum n) = (n \<noteq> 0)"
| "truthy (JStr s) = (s \<noteq> [])"
| "truthy (JArr xs) = (xs \<noteq> [])"
| "truthy (JObj kv) = (kv \<noteq> [])"

text \<open>\<^verbatim>\<open>str(n)\<close> for an integer, as the f-string of the status code formats it.\<close>

fun digits :: "nat \<Rightarrow> string" where
  "digits n =
     (if n < 10 then [''0123456789'' ! n]
      else digits (n div 10) @ [''0123456789'' ! (n mod 10)])"

declare digits.simps [simp del]

definition str_int :: "int \<Rightarrow> string" where
  "str_int i = (if i < 0 then CHR ''-'' # digits (nat (- i)) else digits (nat i))"

text \<open>\<^verbatim>\<open>xs.index(x)\<close>: the position of the first element equal to \<open>x\<close>; ValueError when
  there is none.\<close>

fun first_index :: "'a list \<Rightarrow> 'a \<Rightarrow> nat" where
  "first_index [] x = 0"
| "first_index (y # ys) x = (if y = x then 0 else Suc (first_index ys x))"

definition py_index :: "string list \<Rightarrow> string \<Rightarrow> exn + nat" where
  "py_index xs x =
     (if x \<in> set xs then Inr (first_index xs x)
      else Inl (Exception ''ValueError'' (quoted x @ '' is not in list'')))"

text \<open>\<^verbatim>\<open>sorted(xs, key=f)\<close>: the key of every element is computed first (an exception of
  \<open>f\<close> leaves \<^verbatim>\<open>sorted\<close>), then the elements are sorted by key, stably.\<close>

fun decorate :: "('a \<Rightarrow> exn + nat) \<Rightarrow> 'a list \<Rightarrow> exn + (nat \<times> 'a) list" where
  "decorate f [] = Inr []"
| "decorate f (x # xs) =
     (case f x of
        Inl e \<Rightarrow> Inl e
      | Inr k \<Rightarrow> (case decorate f xs of Inl e \<Rightarrow> Inl e | Inr kxs \<Rightarrow> Inr ((k, x) # kxs)))"

definition sorted_key :: "('a \<Rightarrow> exn + nat) \<Rightarrow> 'a list \<Rightarrow> exn + 'a list" where
  "sorted_key f xs =
     (case decorate f xs of Inl e \<Rightarrow> Inl e | Inr kxs \<Rightarrow> Inr (map snd (sort_key fst kxs)))"

text \<open>\<^verbatim>\<open>s.replace(old, new)\<close>: every occurrence of \<open>old\<close>, left to right, without
  overlap. With an empty \<open>old\<close> Python puts \<open>new\<close> before every character and at the
  end.\<close>

fun replace_from :: "nat \<Rightarrow> string \<Rightarrow> string \<Rightarrow> string \<Rightarrow> string" where
  "replace_from skip old new [] = []"
| "replace_from (Suc k) old new (c # cs) = replace_from k old new cs"
| "replace_from 0 old new (c # cs) =
     (if prefix old (c # cs) then new @ replace_from (length old - 1) old new cs
      else c # replace_from 0 old new cs)"

definition replace :: "string \<Rightarrow> string \<Rightarrow> string \<Rightarrow> string" where
  "replace s old new =
     (if old = [] then new @ concat (map (\<lambda>c. c # new) s) else replace_from 0 old new s)"

section \<open>The outside world\<close>

text \<open>
  The network, the file system, the thread pool's scheduling, the clock, the document
  library and the office binary are not code of the script. Each is a parameter that
  says what the one call made to it answers.
\<close>

record response =
  status_code :: int
  resp_text :: string
  resp_json :: "json option"

text \<open>
  What \<^verbatim>\<open>requests.post\<close> does: it returns a response (\<open>resp_json\<close> is what
  \<^verbatim>\<open>response.json()\<close> returns, \<open>None\<close> when it raises ValueError), or raises
  \<^verbatim>\<open>requests.exceptions.Timeout\<close>, another \<^verbatim>\<open>RequestException\<close> (the argument is
  \<^verbatim>\<open>str(e)\<close>), or an exception of some other subclass of \<^verbatim>\<open>Exception\<close> (class name,
  \<^verbatim>\<open>str(e)\<close>).
\<close>

datatype post_outcome =
    Responded response
  | Timeout
  | RequestException string
  | Raised string string

text \<open>
  What opening and reading a file in text mode does: FileNotFoundError, another exception
  (a directory, no permission, bytes that are not UTF-8), or the decoded text of the file.
\<close>

datatype file_outcome =
    NotFound
  | ReadFails string string
  | FileText string

text \<open>What \<^verbatim>\<open>subprocess.run(..., check=True)\<close> does: it returns, or raises an exception
  of a subclass of \<^verbatim>\<open>Exception\<close> (FileNotFoundError when the binary is absent,
  CalledProcessError on a non-zero exit).\<close>

datatype run_outcome =
    Completed
  | RunRaises string string

record world =
  fs :: "string \<Rightarrow> file_outcome"
  post1 :: post_outcome
  post2 :: "nat \<Rightarrow> post_outcome"
  completion :: "nat list"
  now :: string
  render :: "outline_section list \<Rightarrow> (string \<times> string) option"
  soffice :: run_outcome

section \<open>The script\<close>

subsection \<open>\<^verbatim>\<open>execute_interaction\<close>\<close>

definition error_value :: "string \<Rightarrow> json" where
  "error_value msg = JObj [(''error'', JStr msg)]"

text \<open>The request: the URL, the headers and the JSON payload the function builds, and
  the timeout it passes.\<close>

definition interaction_request :: "string \<Rightarrow> string \<Rightarrow> json \<Rightarrow> request" where
  "interaction_request interaction_id token data =
     (let url =
            ''https://studio-server-production.api.becomposable.com/api/v1/interactions/''
              @ interaction_id @ ''/execute'';
          headers =
            [(''Authorization'', ''Bearer '' @ token), (''Accept'', ''application/json'')];
          payload = JObj [(''data'', data), (''stream'', JBool False)]
      in \<lparr>url = url, headers = headers, json = payload, timeout = 120\<rparr>)"

definition execute_interaction :: "post_outcome \<Rightarrow> string \<Rightarrow> string \<Rightarrow> json \<Rightarrow> json result" where
  "execute_interaction out interaction_id token data =
     (let posted = [HttpPost (interaction_request interaction_id token data)]
      in case out of
           Responded response \<Rightarrow>
             if status_code response = 200 then
               (case resp_json response of
                  Some body \<Rightarrow> (Inr body, posted)
                | None \<Rightarrow> (Inr (error_value ''Invalid JSON response''), posted))
             else
               (Inr (error_value (''Error: '' @ str_int (status_code response) @ '' - ''
                                    @ resp_text response)), posted)
         | Timeout \<Rightarrow>
             (Inr (error_value ''The request timed out. Try increasing the timeout duration.''),
              posted)
         | RequestException e \<Rightarrow> (Inr (error_value (''An error occurred: '' @ e)), posted)
         | Raised cls msg \<Rightarrow> (Inl (Exception cls msg), posted))"

subsection \<open>\<^verbatim>\<open>read_file_as_json\<close>\<close>

text \<open>
  The file is opened with \<^verbatim>\<open>open(filename, 'r', encoding='utf-8')\<close>, that is in text mode
  with the default \<^verbatim>\<open>newline=None\<close>: on reading, \<^verbatim>\<open>\r\n\<close> and a lone \<^verbatim>\<open>\r\<close> are
  given to the program as \<^verbatim>\<open>\n\<close>.
\<close>

fun universal_newlines :: "string \<Rightarrow> string" where
  "universal_newlines [] = []"
| "universal_newlines [c] = (if c = CHR 0x0D then [CHR 0x0A] else [c])"
| "universal_newlines (c # d # cs) =
     (if c = CHR 0x0D \<and> d = CHR 0x0A then CHR 0x0A # universal_newlines cs
      else if c = CHR 0x0D then CHR 0x0A # universal_newlines (d # cs)
      else c # universal_newlines (d # cs))"

definition read_file_as_json :: "(string \<Rightarrow> file_outcome) \<Rightarrow> string \<Rightarrow> json result" where
  "read_file_as_json files filename =
     (case files filename of
        FileText raw \<Rightarrow>
          (let content = universal_newlines raw
           in (Inr (JObj [(''transcript'', JStr content)]), []))
      | NotFound \<Rightarrow>
          (Inl (SystemExit 1),
           [Print (JStr (''Error: The file '' @ quoted filename @ '' was not found.''))])
      | ReadFails cls msg \<Rightarrow> (Inl (Exception cls msg), []))"

subsection \<open>\<^verbatim>\<open>call_second_interaction_parallel\<close>\<close>

definition call_second_outline ::
  "post_outcome \<Rightarrow> string \<Rightarrow> string \<Rightarrow> json \<Rightarrow> string list \<Rightarrow> string \<Rightarrow> outline_section result" where
  "call_second_outline out second_interaction_id token transcript first_level_outline outline_item =
     (let data = JObj [(''transcript'', transcript),
                       (''first_level_outline'', JArr (map JStr first_level_outline)),
                       (''current_outline'', JStr outline_item)]
      in then_do (execute_interaction out second_interaction_id token data) (\<lambda>result.
         then_do (quiet (py_get result ''result'' (JObj []))) (\<lambda>r.
         then_do (quiet (py_get r ''second_level_outline'' (JArr []))) (\<lambda>subs.
           (Inr \<lparr>title = outline_item, subsections = subs\<rparr>, [])))))"

text \<open>
  The loop over \<^verbatim>\<open>as_completed(future_to_outline)\<close>. The futures are numbered in the order
  of submission, \<open>futures ! i\<close> being what worker \<open>i\<close> returned or raised, and \<open>order\<close>
  lists the numbers in the order in which the workers finished. \<^verbatim>\<open>future.result()\<close>
  raises again what the worker raised.
\<close>

fun collect ::
  "string list \<Rightarrow> (exn + outline_section) list \<Rightarrow> nat list \<Rightarrow> outline_section list
     \<Rightarrow> outline_section list result" where
  "collect first_level_outline futures [] sections = (Inr sections, [])"
| "collect first_level_outline futures (i # order) sections =
     (let outline_item = first_level_outline ! i
      in case futures ! i of
           Inr section \<Rightarrow> collect first_level_outline futures order (sections @ [section])
         | Inl (Exception cls exc) \<Rightarrow>
             then_do
               (Inr (),
                [Print (JStr (''Error occurred while processing outline '' @ outline_item
                                @ '': '' @ exc))])
               (\<lambda>_. collect first_level_outline futures order sections)
         | Inl e \<Rightarrow> (Inl e, []))"

text \<open>
  One worker is submitted for each item. The requests of the workers are listed in the
  order of submission, before the lines the loop prints. \<open>order\<close> is a permutation of
  \<open>[0..<length first_level_outline]\<close>: every future is yielded once.
\<close>

definition call_second_interaction_parallel ::
  "(nat \<Rightarrow> post_outcome) \<Rightarrow> nat list \<Rightarrow> string \<Rightarrow> string \<Rightarrow> json \<Rightarrow> string list
     \<Rightarrow> outline_section list result" where
  "call_second_interaction_parallel posts order second_interaction_id token transcript
       first_level_outline =
     (let workers =
            map (\<lambda>i. call_second_outline (posts i) second_interaction_id token transcript
                        first_level_outline (first_level_outline ! i))
              [0..<length first_level_outline]
      in then_do (Inr (), concat (map snd workers)) (\<lambda>_.
         then_do (collect first_level_outline (map fst workers) order []) (\<lambda>sections.
           quiet (sorted_key (\<lambda>x. py_index first_level_outline (title x)) sections))))"

subsection \<open>\<^verbatim>\<open>create_word_document\<close> and \<^verbatim>\<open>convert_to_pdf\<close>\<close>

text \<open>
  The body of the document is built and written by the document library; \<open>rendering\<close>
  says whether doing so for these sections raises (a section whose subsections do not have
  the expected shape). The name of the file carries the time of the run.
\<close>

definition create_word_document ::
  "(outline_section list \<Rightarrow> (string \<times> string) option) \<Rightarrow> string \<Rightarrow> json
     \<Rightarrow> outline_section list \<Rightarrow> string \<Rightarrow> string result" where
  "create_word_document rendering timestamp transcript sections base_file_name =
     (case rendering sections of
        Some (cls, msg) \<Rightarrow> (Inl (Exception cls msg), [])
      | None \<Rightarrow>
          (let word_file_name = base_file_name @ ''_'' @ timestamp @ ''.docx''
           in (Inr word_file_name,
               [SaveDoc word_file_name sections,
                Print (JStr (''Document '' @ quoted word_file_name
                               @ '' created successfully.''))])))"

definition convert_to_pdf :: "run_outcome \<Rightarrow> string \<Rightarrow> string result" where
  "convert_to_pdf conversion word_file_name =
     (let pdf_file_name = replace word_file_name ''.docx'' ''.pdf'';
          command = [''/Applications/LibreOffice.app/Contents/MacOS/soffice'', ''--headless'',
                     ''--convert-to'', ''pdf'', word_file_name]
      in (Inr pdf_file_name,
          RunProcess command #
          (case conversion of
             Completed \<Rightarrow>
               [Print (JStr (''PDF '' @ quoted pdf_file_name @ '' created successfully.''))]
           | RunRaises cls e \<Rightarrow>
               [Print (JStr (''Error during PDF conversion: '' @ e))])))"

subsection \<open>The main program\<close>

text \<open>\<^verbatim>\<open>os.path.basename\<close> and \<^verbatim>\<open>os.path.splitext\<close> of \<^verbatim>\<open>posixpath\<close>: the extension
  starts at the last dot of the last component, unless only dots come before it there.\<close>

definition basename :: "string \<Rightarrow> string" where
  "basename p = rev (takeWhile (\<lambda>c. c \<noteq> CHR ''/'') (rev p))"

definition rfind :: "char \<Rightarrow> string \<Rightarrow> int" where
  "rfind c p =
     (if c \<in> set p then int (length p) - 1 - int (length (takeWhile (\<lambda>d. d \<noteq> c) (rev p)))
      else - 1)"

definition splitext :: "string \<Rightarrow> string \<times> string" where
  "splitext p =
     (let sepIndex = rfind CHR ''/'' p;
          dotIndex = rfind CHR ''.'' p
      in if dotIndex > sepIndex
            \<and> (\<exists>k \<in> set [nat (sepIndex + 1)..<nat dotIndex]. p ! k \<noteq> CHR ''.'')
         then (take (nat dotIndex) p, drop (nat dotIndex) p)
         else (p, []))"

text \<open>
  How the interpreter ends: status 0 after the last statement, the argument of
  \<^verbatim>\<open>sys.exit\<close>, and 1 (with a traceback) for an exception nobody caught.
\<close>

fun exit_status :: "exn + unit \<Rightarrow> int" where
  "exit_status (Inr _) = 0"
| "exit_status (Inl (SystemExit n)) = n"
| "exit_status (Inl (Exception _ _)) = 1"

text \<open>
  The first-level outline as the list of titles the service contract gives: a JSON array of
  strings. Iterating over a boolean or a number raises TypeError. \<open>None\<close> stands for the
  truthy values that this development does not follow further (a string, an object, an
  array with an item that is not a string).
\<close>

fun outline_titles :: "json list \<Rightarrow> string list option" where
  "outline_titles [] = Some []"
| "outline_titles (JStr s # xs) = map_option ((#) s) (outline_titles xs)"
| "outline_titles (_ # xs) = None"

text \<open>The \<^verbatim>\<open>else\<close> branch of the main program: steps 3 to 5.\<close>

definition generate ::
  "world \<Rightarrow> string \<Rightarrow> string \<Rightarrow> string \<Rightarrow> json \<Rightarrow> json \<Rightarrow> (unit result) option" where
  "generate w second_interaction_id token base_file_name data first_level_outline =
     (case first_level_outline of
        JArr xs \<Rightarrow>
          (case outline_titles xs of
             None \<Rightarrow> None
           | Some titles \<Rightarrow>
               Some
                 (then_do (quiet (py_getitem data ''transcript'')) (\<lambda>transcript.
                  then_do (call_second_interaction_parallel (post2 w) (completion w)
                             second_interaction_id token transcript titles) (\<lambda>sections.
                  then_do (create_word_document (render w) (now w) transcript sections
                             base_file_name) (\<lambda>word_file_name.
                  then_do (convert_to_pdf (soffice w) word_file_name) (\<lambda>_.
                    (Inr (), [])))))))
      | JBool b \<Rightarrow>
          Some (Inl (Exception ''TypeError''
                       (quoted (type_name first_level_outline) @ '' object is not iterable'')), [])
      | JNum n \<Rightarrow>
          Some (Inl (Exception ''TypeError''
                       (quoted (type_name first_level_outline) @ '' object is not iterable'')), [])
      | _ \<Rightarrow> None)"

definition main :: "world \<Rightarrow> string list \<Rightarrow> (unit result) option" where
  "main w argv =
     (if length argv \<noteq> 5 then
        Some (Inl (SystemExit 1),
              [Print (JStr (''Usage: python script_name.py <interaction_id> <token> ''
                              @ ''<file_name> <second_interaction_id>''))])
      else
        (let interaction_id = argv ! 1;
             token = argv ! 2;
             file_name = argv ! 3;
             second_interaction_id = argv ! 4;
             base_file_name = fst (splitext (basename file_name))
         in case read_file_as_json (fs w) file_name of
              (Inl e, t0) \<Rightarrow> Some (Inl e, t0)
            | (Inr data, t0) \<Rightarrow>
                (case execute_interaction (post1 w) interaction_id token data of
                   (Inl e, t1) \<Rightarrow> Some (Inl e, t0 @ t1)
                 | (Inr result, t1) \<Rightarrow>
                     (case py_in ''error'' result of
                        Inl e \<Rightarrow> Some (Inl e, t0 @ t1)
                      | Inr True \<Rightarrow>
                          (case py_getitem result ''error'' of
                             Inl e \<Rightarrow> Some (Inl e, t0 @ t1)
                           | Inr message \<Rightarrow> Some (Inl (SystemExit 1), t0 @ t1 @ [Print message]))
                      | Inr False \<Rightarrow>
                          (case py_get result ''result'' (JObj []) of
                             Inl e \<Rightarrow> Some (Inl e, t0 @ t1)
                           | Inr r \<Rightarrow>
                               (case py_get r ''first_level_outline'' (JArr []) of
                                  Inl e \<Rightarrow> Some (Inl e, t0 @ t1)
                                | Inr first_level_outline \<Rightarrow>
                                    if \<not> truthy first_level_outline then
                                      Some (Inr (),
                                            t0 @ t1 @ [Print (JStr ''No first level outline found.'')])
                                    else
                                      map_option (\<lambda>(r, t2). (r, t0 @ t1 @ t2))
                                        (generate w second_interaction_id token base_file_name
                                           data first_level_outline)))))))"

section \<open>Vocabulary of the properties\<close>

text \<open>What worker \<open>i\<close> of the aggregator returns or raises.\<close>

definition worker ::
  "(nat \<Rightarrow> post_outcome) \<Rightarrow> string \<Rightarrow> string \<Rightarrow> json \<Rightarrow> string list \<Rightarrow> nat
     \<Rightarrow> exn + outline_section" where
  "worker posts second_interaction_id token transcript first_level_outline i =
     fst (call_second_outline (posts i) second_interaction_id token transcript
            first_level_outline (first_level_outline ! i))"

text \<open>The values among a list of outcomes, in its order.\<close>

fun returned :: "(exn + 'a) list \<Rightarrow> 'a list" where
  "returned [] = []"
| "returned (Inr x # rs) = x # returned rs"
| "returned (Inl e # rs) = returned rs"

text \<open>The sections of the workers that returned one, the workers taken in the order
  \<open>order\<close>.\<close>

definition sections_in ::
  "(nat \<Rightarrow> post_outcome) \<Rightarrow> string \<Rightarrow> string \<Rightarrow> json \<Rightarrow> string list \<Rightarrow> nat list
     \<Rightarrow> outline_section list" where
  "sections_in posts second_interaction_id token transcript first_level_outline order =
     returned (map (worker posts second_interaction_id token transcript first_level_outline)
                 order)"

text \<open>A decoded body that is an object whose \<^verbatim>\<open>result\<close> is absent, or is an object
  without \<^verbatim>\<open>second_level_outline\<close>.\<close>

fun lacks_second_level_outline :: "json \<Rightarrow> bool" where
  "lacks_second_level_outline (JObj kv) =
     (case map_of kv ''result'' of
        None \<Rightarrow> True
      | Some (JObj rs) \<Rightarrow> map_of rs ''second_level_outline'' = None
      | Some _ \<Rightarrow> False)"
| "lacks_second_level_outline _ = False"

text \<open>The second-stage outcomes that leave a section without subsections: the four
  failures of the request, and a body as above.\<close>

definition tolerated :: "post_outcome \<Rightarrow> bool" where
  "tolerated out =
     (case out of
        Responded r \<Rightarrow>
          status_code r \<noteq> 200
          \<or> (case resp_json r of None \<Rightarrow> True | Some body \<Rightarrow> lacks_second_level_outline body)
      | Timeout \<Rightarrow> True
      | RequestException e \<Rightarrow> True
      | Raised cls msg \<Rightarrow> False)"

section \<open>Example inputs\<close>

definition ok_response :: "json \<Rightarrow> post_outcome" where
  "ok_response body = Responded \<lparr>status_code = 200, resp_text = [], resp_json = Some body\<rparr>"

definition second_level :: "string \<Rightarrow> json" where
  "second_level t =
     JObj [(''result'',
            JObj [(''second_level_outline'',
                   JArr [JObj [(''title'', JStr t), (''content'', JArr [])]])])]"

text \<open>Two items; the answer to the first carries the subsection ``first'', the answer to
  the second the subsection ``second''.\<close>

definition twin_posts :: "nat \<Rightarrow> post_outcome" where
  "twin_posts i = ok_response (second_level (if i = 0 then ''first'' else ''second''))"

text \<open>The answer to the first item is \<^verbatim>\<open>{"result": null}\<close>; the second request times
  out.\<close>

definition null_posts :: "nat \<Rightarrow> post_outcome" where
  "null_posts i = (if i = 0 then ok_response (JObj [(''result'', JNull)]) else Timeout)"

text \<open>A file with a Windows line ending.\<close>

definition crlf_files :: "string \<Rightarrow> file_outcome" where
  "crlf_files name =
     (if name = ''talk.txt'' then FileText [CHR ''a'', CHR 0x0D, CHR 0x0A, CHR ''b'']
      else NotFound)"



definition example_argv :: "string list" where
  "example_argv = [''generate.py'', ''i1'', ''tok'', ''talk.txt'', ''i2'']"

definition example_world :: "post_outcome \<Rightarrow> world" where
  "example_world first =
     \<lparr>fs = crlf_files, post1 = first, post2 = twin_posts, completion = [1, 0],
      now = ''20240101_120000'', render = (\<lambda>sections. None), soffice = Completed\<rparr>"

section \<open>Auxiliary facts\<close>

lemma then_do_Inl [simp]: "then_do (Inl e, t) f = (Inl e, t)"
  by (simp add: then_do_def)

lemma then_do_Inr [simp]: "then_do (Inr x, t) f = (fst (f x), t @ snd (f x))"
  by (simp add: then_do_def split: prod.splits)

lemma fst_then_do:
  "fst (then_do m f) = (case fst m of Inl e \<Rightarrow> Inl e | Inr x \<Rightarrow> fst (f x))"
  by (cases m) (auto simp: then_do_def split: sum.splits prod.splits)

lemma returned_map:
  "returned (map f xs) = map (\<lambda>i. projr (f i)) (filter (\<lambda>i. \<not> isl (f i)) xs)"
proof (induction xs)
  case Nil
  show ?case by simp
next
  case (Cons a xs)
  then show ?case by (cases "f a") simp_all
qed

lemma py_get_cases:
  "(\<exists>cls msg. py_get v k d = Inl (Exception cls msg)) \<or> (\<exists>x. py_get v k d = Inr x)"
  by (cases v) simp_all

lemma execute_interaction_cases:
  "(\<exists>cls msg. fst (execute_interaction out i t d) = Inl (Exception cls msg))
   \<or> (\<exists>x. fst (execute_interaction out i t d) = Inr x)"
  by (cases out) (simp_all add: execute_interaction_def Let_def split: option.splits)

lemma call_second_outline_cases:
  "(\<exists>cls msg. fst (call_second_outline out sid tok tr outline item) = Inl (Exception cls msg))
   \<or> (\<exists>subs. fst (call_second_outline out sid tok tr outline item)
               = Inr \<lparr>title = item, subsections = subs\<rparr>)"
proof -
  let ?data = "JObj [(''transcript'', tr), (''first_level_outline'', JArr (map JStr outline)),
                     (''current_outline'', JStr item)]"
  consider cls msg where "fst (execute_interaction out sid tok ?data) = Inl (Exception cls msg)"
    | result where "fst (execute_interaction out sid tok ?data) = Inr result"
    using execute_interaction_cases by blast
  then show ?thesis
  proof cases
    case 1
    then show ?thesis
      by (simp add: call_second_outline_def fst_then_do)
  next
    case 2
    consider cls msg where "py_get result ''result'' (JObj []) = Inl (Exception cls msg)"
      | r where "py_get result ''result'' (JObj []) = Inr r"
      using py_get_cases by blast
    then show ?thesis
    proof cases
      case 1
      with 2 show ?thesis
        by (simp add: call_second_outline_def fst_then_do quiet_def)
    next
      case r: 2
      consider cls msg where "py_get r ''second_level_outline'' (JArr []) = Inl (Exception cls msg)"
        | subs where "py_get r ''second_level_outline'' (JArr []) = Inr subs"
        using py_get_cases by blast
      then show ?thesis
        using 2 r by cases (simp_all add: call_second_outline_def fst_then_do quiet_def)
    qed
  qed
qed

lemma worker_cases:
  "(\<exists>cls msg. worker posts sid tok tr outline i = Inl (Exception cls msg))
   \<or> (\<exists>subs. worker posts sid tok tr outline i = Inr \<lparr>title = outline ! i, subsections = subs\<rparr>)"
  unfolding worker_def by (rule call_second_outline_cases)

lemma collect_result:
  assumes "\<forall>i \<in> set order. \<forall>n. futures ! i \<noteq> Inl (SystemExit n)"
  shows "fst (collect outline futures order acc)
           = Inr (acc @ returned (map ((!) futures) order))"
  using assms
proof (induction order arbitrary: acc)
  case Nil
  show ?case by simp
next
  case (Cons i order)
  show ?case
  proof (cases "futures ! i")
    case (Inr s)
    with Cons show ?thesis by simp
  next
    case (Inl e)
    with Cons.prems obtain cls msg where "e = Exception cls msg"
      by (cases e) auto
    with Inl Cons show ?thesis by simp
  qed
qed

lemma collect_logs:
  assumes "\<forall>i \<in> set order. \<forall>n. futures ! i \<noteq> Inl (SystemExit n)"
    and "i \<in> set order" and "futures ! i = Inl (Exception cls exc)"
  shows "Print (JStr (''Error occurred while processing outline '' @ outline ! i @ '': '' @ exc))
           \<in> set (snd (collect outline futures order acc))"
  using assms
proof (induction order arbitrary: acc)
  case Nil
  then show ?case by simp
next
  case (Cons j order)
  show ?case
  proof (cases "futures ! j")
    case (Inr s)
    with Cons show ?thesis by auto
  next
    case (Inl e)
    with Cons.prems obtain c m where e: "e = Exception c m"
      by (cases e) auto
    show ?thesis
    proof (cases "j = i")
      case True
      with Inl e Cons.prems show ?thesis by simp
    next
      case False
      with Inl e Cons show ?thesis by simp
    qed
  qed
qed


lemma decorate_total:
  assumes "\<forall>x \<in> set xs. f x = Inr (k x)"
  shows "decorate f xs = Inr (map (\<lambda>x. (k x, x)) xs)"
  using assms by (induction xs) simp_all

lemma insort_key_decorated:
  "insort_key fst (k a, a) (map (\<lambda>x. (k x, x)) ys) = map (\<lambda>x. (k x, x)) (insort_key k a ys)"
  by (induction ys) simp_all

lemma sort_key_decorated:
  "sort_key fst (map (\<lambda>x. (k x, x)) xs) = map (\<lambda>x. (k x, x)) (sort_key k xs)"
  by (induction xs) (simp_all add: insort_key_decorated)

lemma sorted_key_total:
  assumes "\<forall>x \<in> set xs. f x = Inr (k x)"
  shows "sorted_key f xs = Inr (sort_key k xs)"
  by (simp add: sorted_key_def decorate_total [OF assms] sort_key_decorated comp_def)

lemma first_index_nth:
  "distinct xs \<Longrightarrow> i < length xs \<Longrightarrow> first_index xs (xs ! i) = i"
proof (induction xs arbitrary: i)
  case Nil
  then show ?case by simp
next
  case (Cons a xs)
  then show ?case by (cases i) auto
qed

lemma first_index_inj:
  "x \<in> set xs \<Longrightarrow> first_index xs x = first_index xs y \<Longrightarrow> x = y"
  by (induction xs) (auto split: if_splits)

lemma worker_title:
  "worker posts sid tok tr outline i = Inr s \<Longrightarrow> title s = outline ! i"
  using worker_cases [of posts sid tok tr outline i] by auto

lemma worker_not_exit: "worker posts sid tok tr outline i \<noteq> Inl (SystemExit n)"
  using worker_cases [of posts sid tok tr outline i] by auto

lemma sections_in_titles:
  assumes "set order \<subseteq> {..<length outline}" and "s \<in> set (sections_in posts sid tok tr outline order)"
  shows "title s \<in> set outline"
proof -
  from assms(2) obtain i where i: "i \<in> set order" "\<not> isl (worker posts sid tok tr outline i)"
      "s = projr (worker posts sid tok tr outline i)"
    by (auto simp: sections_in_def returned_map)
  then have "worker posts sid tok tr outline i = Inr s"
    by (cases "worker posts sid tok tr outline i") auto
  then have "title s = outline ! i" by (rule worker_title)
  with i(1) assms(1) show ?thesis by auto
qed

lemma aggregator_result:
  assumes "mset order = mset [0..<length outline]"
  shows "fst (call_second_interaction_parallel posts order sid tok tr outline)
           = Inr (sort_key (\<lambda>x. first_index outline (title x))
                    (sections_in posts sid tok tr outline order))"
proof -
  let ?workers = "map (\<lambda>i. call_second_outline (posts i) sid tok tr outline (outline ! i))
                    [0..<length outline]"
  from assms have sub: "set order \<subseteq> {..<length outline}"
    by (metis atLeast_upt mset_eq_setD set_upt subset_refl)
  have nth: "map fst ?workers ! i = worker posts sid tok tr outline i" if "i \<in> set order" for i
    using that sub by (auto simp: worker_def)
  have "fst (collect outline (map fst ?workers) order [])
          = Inr ([] @ returned (map ((!) (map fst ?workers)) order))"
  proof (rule collect_result, intro ballI allI)
    fix i n
    assume "i \<in> set order"
    then have "map fst ?workers ! i = worker posts sid tok tr outline i" by (rule nth)
    then show "map fst ?workers ! i \<noteq> Inl (SystemExit n)"
      by (simp only: worker_not_exit not_False_eq_True)
  qed
  also have "map ((!) (map fst ?workers)) order = map (worker posts sid tok tr outline) order"
    by (rule map_cong [OF refl]) (rule nth)
  finally have coll: "fst (collect outline (map fst ?workers) order [])
          = Inr (sections_in posts sid tok tr outline order)"
    by (simp add: sections_in_def)
  have keys: "\<forall>x \<in> set (sections_in posts sid tok tr outline order).
                py_index outline (title x) = Inr (first_index outline (title x))"
    using sections_in_titles [OF sub] by (simp add: py_index_def)
  show ?thesis
    by (simp add: call_second_interaction_parallel_def Let_def fst_then_do coll quiet_def
          sorted_key_total [OF keys] del: map_map)
qed


lemma snd_then_do:
  "snd (then_do m f) = (case fst m of Inl e \<Rightarrow> snd m | Inr x \<Rightarrow> snd m @ snd (f x))"
  by (cases m) (auto simp: then_do_def split: sum.splits prod.splits)

lemma perm_upt_subset:
  assumes "mset order = mset [0..<n]"
  shows "set order = {..<n}"
proof -
  from assms have "set order = set [0..<n]" by (rule mset_eq_setD)
  then show ?thesis by (simp add: lessThan_atLeast0)
qed

lemma sections_in_worker:
  "s \<in> set (sections_in posts sid tok tr outline order)
     \<longleftrightarrow> (\<exists>i \<in> set order. worker posts sid tok tr outline i = Inr s)"
proof
  assume "s \<in> set (sections_in posts sid tok tr outline order)"
  then obtain i where i: "i \<in> set order" "\<not> isl (worker posts sid tok tr outline i)"
      "s = projr (worker posts sid tok tr outline i)"
    by (auto simp: sections_in_def returned_map)
  then have "worker posts sid tok tr outline i = Inr s"
    by (cases "worker posts sid tok tr outline i") auto
  with i(1) show "\<exists>i \<in> set order. worker posts sid tok tr outline i = Inr s" ..
next
  assume "\<exists>i \<in> set order. worker posts sid tok tr outline i = Inr s"
  then obtain i where "i \<in> set order" "worker posts sid tok tr outline i = Inr s" ..
  then show "s \<in> set (sections_in posts sid tok tr outline order)"
    by (force simp: sections_in_def returned_map)
qed

lemma sections_in_mset:
  assumes "mset order = mset order'"
  shows "mset (sections_in posts sid tok tr outline order)
           = mset (sections_in posts sid tok tr outline order')"
proof -
  have "mset (sections_in posts sid tok tr outline xs)
          = image_mset (\<lambda>i. projr (worker posts sid tok tr outline i))
              (filter_mset (\<lambda>i. \<not> isl (worker posts sid tok tr outline i)) (mset xs))" for xs
    by (simp add: sections_in_def returned_map)
  with assms show ?thesis by simp
qed

lemma sections_in_length:
  "length (sections_in posts sid tok tr outline order)
     = length order - length (filter (\<lambda>i. isl (worker posts sid tok tr outline i)) order)"
proof -
  have "length (filter (\<lambda>i. \<not> isl (worker posts sid tok tr outline i)) order)
          + length (filter (\<lambda>i. isl (worker posts sid tok tr outline i)) order) = length order"
    using sum_length_filter_compl [of "\<lambda>i. \<not> isl (worker posts sid tok tr outline i)" order]
    by simp
  then show ?thesis by (simp add: sections_in_def returned_map)
qed

lemma sections_in_outline_order:
  assumes "distinct outline" and "mset order = mset [0..<length outline]"
  shows "sort_key (\<lambda>x. first_index outline (title x)) (sections_in posts sid tok tr outline order)
           = sections_in posts sid tok tr outline [0..<length outline]"
proof (rule sort_key_inj_key_eq)
  let ?w = "worker posts sid tok tr outline"
  let ?key = "\<lambda>x. first_index outline (title x)"
  from assms(2) have order: "set order = {..<length outline}" by (rule perm_upt_subset)
  show "mset (sections_in posts sid tok tr outline order)
          = mset (sections_in posts sid tok tr outline [0..<length outline])"
    using assms(2) by (rule sections_in_mset)
  have key: "?key s = i" if "?w i = Inr s" "i < length outline" for s i
    using that assms(1) by (simp add: worker_title first_index_nth)
  show "inj_on ?key (set (sections_in posts sid tok tr outline order))"
  proof (rule inj_onI)
    fix s s'
    assume "s \<in> set (sections_in posts sid tok tr outline order)"
      and "s' \<in> set (sections_in posts sid tok tr outline order)"
      and eq: "?key s = ?key s'"
    then obtain i j where i: "i < length outline" "?w i = Inr s"
      and j: "j < length outline" "?w j = Inr s'"
      using order by (auto simp: sections_in_worker)
    from key [OF i(2) i(1)] key [OF j(2) j(1)] eq have "i = j" by simp
    with i(2) j(2) show "s = s'" by simp
  qed
  have "map ?key (sections_in posts sid tok tr outline [0..<length outline])
          = filter (\<lambda>i. \<not> isl (?w i)) [0..<length outline]"
  proof -
    have "?key (projr (?w i)) = i" if "i < length outline" "\<not> isl (?w i)" for i
    proof -
      from that(2) have "?w i = Inr (projr (?w i))" by (cases "?w i") auto
      then show ?thesis using that(1) by (rule key)
    qed
    then show ?thesis
      by (auto simp: sections_in_def returned_map comp_def intro!: map_idI)
  qed
  then show "sorted (map ?key (sections_in posts sid tok tr outline [0..<length outline]))"
    by (simp add: sorted_wrt_filter)
qed

lemma same_title_keep_order:
  assumes "\<forall>x \<in> set xs. title x \<in> set outline"
  shows "filter (\<lambda>x. title x = t) (sort_key (\<lambda>x. first_index outline (title x)) xs)
           = filter (\<lambda>x. title x = t) xs"
proof (cases "t \<in> set outline")
  case True
  let ?key = "\<lambda>x. first_index outline (title x)"
  have eq: "(title x = t) = (?key x = first_index outline t)" if "x \<in> set xs" for x
    using that assms True first_index_inj [of t outline "title x"] by auto
  have "filter (\<lambda>x. title x = t) (sort_key ?key xs)
          = filter (\<lambda>x. ?key x = first_index outline t) (sort_key ?key xs)"
    by (rule filter_cong [OF refl]) (simp add: eq)
  also have "\<dots> = filter (\<lambda>x. ?key x = first_index outline t) xs"
    by (rule sort_key_stable)
  also have "\<dots> = filter (\<lambda>x. title x = t) xs"
    by (rule filter_cong [OF refl]) (simp add: eq)
  finally show ?thesis .
next
  case False
  with assms have "\<forall>x \<in> set xs. title x \<noteq> t" by auto
  then show ?thesis by (simp add: filter_empty_conv [THEN iffD2])
qed


lemma replace_from_drop: "replace_from k old new cs = replace_from 0 old new (drop k cs)"
proof (induction k arbitrary: cs)
  case 0
  show ?case by simp
next
  case (Suc k)
  show ?case
  proof (cases cs)
    case Nil
    then show ?thesis by simp
  next
    case (Cons c cs')
    with Suc [of cs'] show ?thesis by simp
  qed
qed

lemma replace_from_match:
  assumes "old \<noteq> []"
  shows "replace_from 0 old new (old @ rest) = new @ replace_from 0 old new rest"
proof -
  from assms obtain c cs where old: "old = c # cs" by (cases old) auto
  have "replace_from 0 old new (old @ rest) = new @ replace_from (length cs) old new (cs @ rest)"
    by (simp add: old)
  also have "replace_from (length cs) old new (cs @ rest) = replace_from 0 old new rest"
    by (subst replace_from_drop) simp
  finally show ?thesis .
qed

lemma docx_no_overlap:
  assumes "prefix ''.docx'' (xs @ ''.docx'')" and "xs \<noteq> []"
  shows "prefix ''.docx'' xs"
  using assms
  by (auto simp: prefix_append prefix_Cons Cons_eq_append_conv)

lemma replace_docx_suffix:
  assumes "\<not> sublist ''.docx'' base"
  shows "replace_from 0 ''.docx'' ''.pdf'' (base @ ''.docx'') = base @ ''.pdf''"
  using assms
proof (induction base)
  case Nil
  have "replace_from 0 ''.docx'' ''.pdf'' (''.docx'' @ []) = ''.pdf'' @ replace_from 0 ''.docx'' ''.pdf'' []"
    by (rule replace_from_match) simp
  then show ?case by simp
next
  case (Cons c cs)
  from Cons.prems have tl: "\<not> sublist ''.docx'' cs"
    by (meson sublist_Cons_right)
  from Cons.prems have "\<not> prefix ''.docx'' (c # cs)"
    using prefix_imp_sublist by blast
  then have "\<not> prefix ''.docx'' ((c # cs) @ ''.docx'')"
    using docx_no_overlap [of "c # cs"] by blast
  then have no: "\<not> prefix ''.docx'' (c # (cs @ ''.docx''))"
    unfolding append_Cons .
  have "replace_from 0 ''.docx'' ''.pdf'' (c # (cs @ ''.docx''))
          = c # replace_from 0 ''.docx'' ''.pdf'' (cs @ ''.docx'')"
    by (simp only: replace_from.simps no if_False)
  with Cons.IH [OF tl] show ?case by (simp only: append_Cons)
qed

lemma universal_newlines_no_cr:
  "CHR 0x0D \<notin> set T \<Longrightarrow> universal_newlines T = T"
  by (induction T rule: universal_newlines.induct) auto


lemma aggregator_log:
  "snd (call_second_interaction_parallel posts order sid tok tr outline)
     = concat (map (\<lambda>i. snd (call_second_outline (posts i) sid tok tr outline (outline ! i)))
                 [0..<length outline])
       @ snd (collect outline
                (map (\<lambda>i. fst (call_second_outline (posts i) sid tok tr outline (outline ! i)))
                   [0..<length outline])
                order [])"
  by (simp add: call_second_interaction_parallel_def Let_def snd_then_do quiet_def comp_def
        split: sum.splits)

lemma lacks_second_level_outline_get:
  assumes "lacks_second_level_outline body"
  shows "\<exists>r. py_get body ''result'' (JObj []) = Inr r
             \<and> py_get r ''second_level_outline'' (JArr []) = Inr (JArr [])"
proof (cases body)
  case (JObj kv)
  show ?thesis
  proof (cases "map_of kv ''result''")
    case None
    with JObj show ?thesis by simp
  next
    case (Some v)
    with JObj assms show ?thesis by (cases v) simp_all
  qed
qed (use assms in simp_all)

lemma error_value_get:
  "py_get (error_value msg) ''result'' (JObj []) = Inr (JObj [])"
  by (simp add: error_value_def)

lemma tolerated_worker:
  assumes "tolerated out"
  shows "fst (call_second_outline out sid tok tr outline item)
           = Inr \<lparr>title = item, subsections = JArr []\<rparr>"
proof -
  let ?data = "JObj [(''transcript'', tr), (''first_level_outline'', JArr (map JStr outline)),
                     (''current_outline'', JStr item)]"
  have "\<exists>result r. fst (execute_interaction out sid tok ?data) = Inr result
          \<and> py_get result ''result'' (JObj []) = Inr r
          \<and> py_get r ''second_level_outline'' (JArr []) = Inr (JArr [])"
  proof (cases out)
    case (Responded resp)
    show ?thesis
    proof (cases "status_code resp = 200")
      case False
      with Responded show ?thesis
        by (simp add: execute_interaction_def error_value_get)
    next
      case True
      show ?thesis
      proof (cases "resp_json resp")
        case None
        with True Responded show ?thesis
          by (simp add: execute_interaction_def error_value_get)
      next
        case (Some body)
        with True Responded assms have "lacks_second_level_outline body"
          by (simp add: tolerated_def)
        from lacks_second_level_outline_get [OF this] True Responded Some show ?thesis
          by (simp add: execute_interaction_def)
      qed
    qed
  next
    case Timeout
    then show ?thesis by (simp add: execute_interaction_def error_value_get)
  next
    case (RequestException e)
    then show ?thesis by (simp add: execute_interaction_def error_value_get)
  next
    case (Raised cls msg)
    with assms show ?thesis by (simp add: tolerated_def)
  qed
  then show ?thesis
    by (auto simp: call_second_outline_def fst_then_do quiet_def)
qed

section \<open>The interaction client\<close>




section \<open>The transcript loader\<close>

text \<open>
  C3, as stated, fails: a file whose text has a Windows line ending is not preserved
  character for character.
\<close>

theorem read_file_crlf_counterexample:
  "read_file_as_json crlf_files ''talk.txt''
     \<noteq> (Inr (JObj [(''transcript'', JStr [CHR ''a'', CHR 0x0D, CHR 0x0A, CHR ''b''])]), [])"
  by (simp add: read_file_as_json_def crlf_files_def)

text \<open>
  C3, amended. Reading a transcript file whose decoded text is \<open>T\<close> yields exactly the
  payload \<^verbatim>\<open>{"transcript": T'}\<close>, where \<open>T'\<close> is \<open>T\<close> with every \<^verbatim>\<open>\r\n\<close> and every
  other \<^verbatim>\<open>\r\<close> replaced by \<^verbatim>\<open>\n\<close>; a text without \<^verbatim>\<open>\r\<close> is preserved character for
  character, embedded \<^verbatim>\<open>\n\<close> and the bytes of non-ASCII characters included.
\<close>

theorem read_file_as_json_payload:
  assumes "files filename = FileText T"
  shows "read_file_as_json files filename
           = (Inr (JObj [(''transcript'', JStr (universal_newlines T))]), [])
         \<and> (CHR 0x0D \<notin> set T \<longrightarrow>
              read_file_as_json files filename = (Inr (JObj [(''transcript'', JStr T)]), []))"
  using assms by (simp add: read_file_as_json_def universal_newlines_no_cr)

theorem read_file_as_json_payload_witness:
  "crlf_files ''talk.txt'' = FileText [CHR ''a'', CHR 0x0D, CHR 0x0A, CHR ''b'']
   \<and> read_file_as_json crlf_files ''talk.txt''
       = (Inr (JObj [(''transcript'', JStr [CHR ''a'', CHR 0x0A, CHR ''b''])]), [])"
proof -
  have h: "crlf_files ''talk.txt'' = FileText [CHR ''a'', CHR 0x0D, CHR 0x0A, CHR ''b'']"
    by (simp add: crlf_files_def)
  from read_file_as_json_payload [where files = crlf_files and filename = "''talk.txt''", OF h] h
  show ?thesis by simp
qed


section \<open>The main program\<close>

text \<open>
  C4. When the first-stage call gets a response whose status is not 200, the run prints
  the error message and exits with status 1: it has posted the first-stage request and
  nothing else, has saved no document and has run no conversion.
\<close>

theorem first_stage_non_200_aborts:
  assumes "length argv = 5"
    and "fs w (argv ! 3) = FileText T"
    and "post1 w = Responded r"
    and "status_code r \<noteq> 200"
  shows "main w argv
           = Some (Inl (SystemExit 1),
                   [HttpPost (interaction_request (argv ! 1) (argv ! 2)
                                (JObj [(''transcript'', JStr (universal_newlines T))])),
                    Print (JStr (''Error: '' @ str_int (status_code r) @ '' - ''
                                   @ resp_text r))])
         \<and> exit_status (Inl (SystemExit 1)) \<noteq> 0"
  using assms
  by (simp add: main_def read_file_as_json_def execute_interaction_def error_value_def Let_def)

theorem first_stage_non_200_aborts_witness:
  "main (example_world (Responded \<lparr>status_code = 500, resp_text = ''down'', resp_json = None\<rparr>))
        example_argv
     = Some (Inl (SystemExit 1),
             [HttpPost (interaction_request ''i1'' ''tok''
                          (JObj [(''transcript'', JStr [CHR ''a'', CHR 0x0A, CHR ''b''])])),
              Print (JStr ''Error: 500 - down'')])"
  using first_stage_non_200_aborts
          [of example_argv
              "example_world (Responded \<lparr>status_code = 500, resp_text = ''down'', resp_json = None\<rparr>)"
              "[CHR ''a'', CHR 0x0D, CHR 0x0A, CHR ''b'']"
              "\<lparr>status_code = 500, resp_text = ''down'', resp_json = None\<rparr>"]
  by (simp add: example_world_def example_argv_def crlf_files_def str_int_def digits.simps)

text \<open>
  C5. When the first-stage call succeeds (status 200, a JSON body without the key
  \<^verbatim>\<open>error\<close>) and the first-level outline of the body has no item, the run prints
  ``No first level outline found.'' and ends normally: it has posted the first-stage
  request and nothing else, has saved no document and has run no conversion.
\<close>

theorem empty_outline_ends_normally:
  assumes "length argv = 5"
    and "fs w (argv ! 3) = FileText T"
    and "post1 w = Responded r"
    and "status_code r = 200"
    and "resp_json r = Some result"
    and "py_in ''error'' result = Inr False"
    and "py_get result ''result'' (JObj []) = Inr res"
    and "py_get res ''first_level_outline'' (JArr []) = Inr (JArr [])"
  shows "main w argv
           = Some (Inr (),
                   [HttpPost (interaction_request (argv ! 1) (argv ! 2)
                                (JObj [(''transcript'', JStr (universal_newlines T))])),
                    Print (JStr ''No first level outline found.'')])
         \<and> exit_status (Inr ()) = 0"
  using assms
  by (simp add: main_def read_file_as_json_def execute_interaction_def Let_def)

theorem empty_outline_ends_normally_witness:
  "main (example_world (ok_response (JObj [(''result'', JObj [(''first_level_outline'', JArr [])])])))
        example_argv
     = Some (Inr (),
             [HttpPost (interaction_request ''i1'' ''tok''
                          (JObj [(''transcript'', JStr [CHR ''a'', CHR 0x0A, CHR ''b''])])),
              Print (JStr ''No first level outline found.'')])"
  using empty_outline_ends_normally
          [of example_argv
              "example_world (ok_response (JObj [(''result'', JObj [(''first_level_outline'', JArr [])])]))"
              "[CHR ''a'', CHR 0x0D, CHR 0x0A, CHR ''b'']"
              "\<lparr>status_code = 200, resp_text = [], resp_json = Some (JObj [(''result'', JObj [(''first_level_outline'', JArr [])])])\<rparr>"
              "JObj [(''result'', JObj [(''first_level_outline'', JArr [])])]"
              "JObj [(''first_level_outline'', JArr [])]"]
  by (simp add: example_world_def example_argv_def crlf_files_def ok_response_def)

text \<open>
  C10. Whatever the status of the response says, a 200 response whose decoded body is an
  object with a top-level key \<^verbatim>\<open>error\<close> makes the run print the value under that key
  and exit with status 1, as a failed first-stage call does.
\<close>

theorem error_key_in_200_body_aborts:
  assumes "length argv = 5"
    and "fs w (argv ! 3) = FileText T"
    and "post1 w = Responded r"
    and "status_code r = 200"
    and "resp_json r = Some (JObj kv)"
    and "map_of kv ''error'' = Some v"
  shows "main w argv
           = Some (Inl (SystemExit 1),
                   [HttpPost (interaction_request (argv ! 1) (argv ! 2)
                                (JObj [(''transcript'', JStr (universal_newlines T))])),
                    Print v])
         \<and> exit_status (Inl (SystemExit 1)) = 1"
proof -
  from assms(6) have "''error'' \<in> fst ` set kv"
    by (meson domI dom_map_of_conv_image_fst [THEN equalityD1, THEN subsetD])
  with assms show ?thesis
    by (simp add: main_def read_file_as_json_def execute_interaction_def Let_def)
qed

theorem error_key_in_200_body_aborts_witness:
  "main (example_world
           (ok_response (JObj [(''result'', JObj [(''first_level_outline'', JArr [JStr ''Intro''])]),
                               (''error'', JNull)])))
        example_argv
     = Some (Inl (SystemExit 1),
             [HttpPost (interaction_request ''i1'' ''tok''
                          (JObj [(''transcript'', JStr [CHR ''a'', CHR 0x0A, CHR ''b''])])),
              Print JNull])"
  using error_key_in_200_body_aborts
          [of example_argv
              "example_world
                 (ok_response (JObj [(''result'', JObj [(''first_level_outline'', JArr [JStr ''Intro''])]),
                                     (''error'', JNull)]))"
              "[CHR ''a'', CHR 0x0D, CHR 0x0A, CHR ''b'']"
              "\<lparr>status_code = 200, resp_text = [],
                resp_json = Some (JObj [(''result'', JObj [(''first_level_outline'', JArr [JStr ''Intro''])]),
                                        (''error'', JNull)])\<rparr>"
              "[(''result'', JObj [(''first_level_outline'', JArr [JStr ''Intro''])]), (''error'', JNull)]"
              JNull]
  by (simp add: example_world_def example_argv_def crlf_files_def ok_response_def)


section \<open>The format converter\<close>

text \<open>
  Running the conversion binary may raise whatever it will, its absence included:
  \<open>convert_to_pdf\<close> raises nothing, runs the binary once, logs the failure and returns a
  file name. When \<^verbatim>\<open>.docx\<close> occurs in the input name only as its suffix, the name
  returned is the input name with that suffix replaced by \<^verbatim>\<open>.pdf\<close>.
\<close>

lemma convert_to_pdf_returns_name:
  "(\<exists>pdf_file_name. fst (convert_to_pdf conversion word_file_name) = Inr pdf_file_name)
   \<and> snd (convert_to_pdf (RunRaises cls e) word_file_name)
       = [RunProcess [''/Applications/LibreOffice.app/Contents/MacOS/soffice'', ''--headless'',
                      ''--convert-to'', ''pdf'', word_file_name],
          Print (JStr (''Error during PDF conversion: '' @ e))]
   \<and> (\<not> sublist ''.docx'' base \<longrightarrow>
        fst (convert_to_pdf conversion (base @ ''.docx'')) = Inr (base @ ''.pdf''))"
  by (simp add: convert_to_pdf_def Let_def replace_def replace_docx_suffix)

text \<open>
  C8 at the input where the code breaks it. A transcript named \<^verbatim>\<open>talk.docx.txt\<close> gives a
  document whose name has \<^verbatim>\<open>.docx\<close> twice. Both occurrences are replaced: the name
  returned, and printed as created after a successful conversion, is not the input name
  with its \<^verbatim>\<open>.docx\<close> suffix replaced by \<^verbatim>\<open>.pdf\<close>.
\<close>

theorem convert_to_pdf_replaces_every_docx:
  "convert_to_pdf Completed ''talk.docx_20240101_120000.docx''
     = (Inr ''talk.pdf_20240101_120000.pdf'',
        [RunProcess [''/Applications/LibreOffice.app/Contents/MacOS/soffice'', ''--headless'',
                     ''--convert-to'', ''pdf'', ''talk.docx_20240101_120000.docx''],
         Print (JStr (''PDF '' @ quoted ''talk.pdf_20240101_120000.pdf''
                        @ '' created successfully.''))])
   \<and> fst (convert_to_pdf Completed ''talk.docx_20240101_120000.docx'')
       \<noteq> Inr ''talk.docx_20240101_120000.pdf''"
  by (simp add: convert_to_pdf_def replace_def Let_def)

section \<open>The parallel aggregator\<close>

text \<open>
  C1 at the input where the code breaks it. The outline has the title \<^verbatim>\<open>Intro\<close> twice and
  the second worker finishes first: the section made from the answer to the second item
  is returned before the section made from the answer to the first.
\<close>

theorem duplicate_titles_keep_completion_order:
  "fst (call_second_interaction_parallel twin_posts [1, 0] ''i2'' ''tok'' (JStr ''T'')
          [''Intro'', ''Intro''])
     = Inr [\<lparr>title = ''Intro'',
              subsections = JArr [JObj [(''title'', JStr ''second''), (''content'', JArr [])]]\<rparr>,
            \<lparr>title = ''Intro'',
              subsections = JArr [JObj [(''title'', JStr ''first''), (''content'', JArr [])]]\<rparr>]"
  by (simp add: call_second_interaction_parallel_def call_second_outline_def
        execute_interaction_def twin_posts_def ok_response_def second_level_def quiet_def
        sorted_key_def py_index_def Let_def)

text \<open>
  C9. With every future yielded once, the list returned is the list of collected sections
  (completion order) sorted stably by the index of the first occurrence of the title in
  the outline. So when the titles of the outline are pairwise distinct the list returned is
  in outline order, whatever the completion order; and in every case the sections with
  one and the same title are returned in the order in which they were completed.
\<close>

theorem sections_sorted_by_first_title_index:
  assumes "mset order = mset [0..<length first_level_outline]"
  shows "\<exists>sections.
           fst (call_second_interaction_parallel posts order second_interaction_id token
                  transcript first_level_outline) = Inr sections
           \<and> sections
               = sort_key (\<lambda>x. first_index first_level_outline (title x))
                   (sections_in posts second_interaction_id token transcript
                      first_level_outline order)
           \<and> (distinct first_level_outline \<longrightarrow>
                sections
                  = sections_in posts second_interaction_id token transcript
                      first_level_outline [0..<length first_level_outline])
           \<and> (\<forall>t. filter (\<lambda>x. title x = t) sections
                      = filter (\<lambda>x. title x = t)
                          (sections_in posts second_interaction_id token transcript
                             first_level_outline order))"
proof -
  from assms have "set order \<subseteq> {..<length first_level_outline}"
    by (simp add: perm_upt_subset)
  then have "\<forall>x \<in> set (sections_in posts second_interaction_id token transcript
                           first_level_outline order). title x \<in> set first_level_outline"
    using sections_in_titles by blast
  then show ?thesis
    by (simp add: aggregator_result [OF assms] sections_in_outline_order [OF _ assms]
          same_title_keep_order)
qed

theorem sections_sorted_by_first_title_index_witness:
  "mset [1, 0] = mset [0..<length [''Intro'', ''Summary'']]
   \<and> distinct [''Intro'', ''Summary'']
   \<and> fst (call_second_interaction_parallel twin_posts [1, 0] ''i2'' ''tok'' (JStr ''T'')
            [''Intro'', ''Summary''])
       = Inr (sections_in twin_posts ''i2'' ''tok'' (JStr ''T'') [''Intro'', ''Summary'']
                [0..<length [''Intro'', ''Summary'']])"
proof -
  have h: "mset [1, 0] = mset [0..<length [''Intro'', ''Summary'']]"
    by (simp add: upt_rec)
  have d: "distinct [''Intro'', ''Summary'']"
    by simp
  from sections_sorted_by_first_title_index
         [OF h, of twin_posts "''i2''" "''tok''" "JStr ''T''"] h d
  show ?thesis by auto
qed


text \<open>
  C7. With every future yielded once, the aggregator does not raise. A worker that raises
  an exception gets a line in the log and no section; the sections returned are those of
  all the other workers, so their number is the number of items minus the number of
  workers that raised.
\<close>

theorem raising_worker_is_logged_and_dropped:
  assumes "mset order = mset [0..<length first_level_outline]"
  shows "\<exists>sections log.
           call_second_interaction_parallel posts order second_interaction_id token transcript
               first_level_outline = (Inr sections, log)
           \<and> mset sections
               = mset (sections_in posts second_interaction_id token transcript
                         first_level_outline [0..<length first_level_outline])
           \<and> length sections
               = length first_level_outline
                 - length (filter (\<lambda>i. isl (worker posts second_interaction_id token transcript
                                             first_level_outline i))
                             [0..<length first_level_outline])
           \<and> (\<forall>i < length first_level_outline. \<forall>cls exc.
                  worker posts second_interaction_id token transcript first_level_outline i
                    = Inl (Exception cls exc) \<longrightarrow>
                  Print (JStr (''Error occurred while processing outline ''
                                 @ first_level_outline ! i @ '': '' @ exc)) \<in> set log)"
proof -
  let ?run = "call_second_interaction_parallel posts order second_interaction_id token
                transcript first_level_outline"
  let ?w = "worker posts second_interaction_id token transcript first_level_outline"
  let ?in = "sections_in posts second_interaction_id token transcript first_level_outline"
  let ?key = "\<lambda>x. first_index first_level_outline (title x)"
  let ?futures = "map (\<lambda>i. fst (call_second_outline (posts i) second_interaction_id token
                                  transcript first_level_outline (first_level_outline ! i)))
                    [0..<length first_level_outline]"
  from assms have order: "set order = {..<length first_level_outline}"
    by (rule perm_upt_subset)
  have fst_run: "fst ?run = Inr (sort_key ?key (?in order))"
    using assms by (rule aggregator_result)
  have "mset (sort_key ?key (?in order)) = mset (?in [0..<length first_level_outline])"
    using sections_in_mset [OF assms] by simp
  moreover from this
  have "length (sort_key ?key (?in order)) = length (?in [0..<length first_level_outline])"
    by (rule mset_eq_length)
  then have "length (sort_key ?key (?in order))
               = length first_level_outline
                 - length (filter (\<lambda>i. isl (?w i)) [0..<length first_level_outline])"
    by (simp add: sections_in_length)
  moreover have "Print (JStr (''Error occurred while processing outline ''
                                @ first_level_outline ! i @ '': '' @ exc)) \<in> set (snd ?run)"
    if "i < length first_level_outline" "?w i = Inl (Exception cls exc)" for i cls exc
  proof -
    have nth: "?futures ! j = ?w j" if "j \<in> set order" for j
      using that order by (simp add: worker_def)
    have "Print (JStr (''Error occurred while processing outline ''
                         @ first_level_outline ! i @ '': '' @ exc))
            \<in> set (snd (collect first_level_outline ?futures order []))"
    proof (rule collect_logs)
      show "\<forall>j \<in> set order. \<forall>n. ?futures ! j \<noteq> Inl (SystemExit n)"
      proof (intro ballI allI)
        fix j n
        assume "j \<in> set order"
        then have "?futures ! j = ?w j" by (rule nth)
        then show "?futures ! j \<noteq> Inl (SystemExit n)"
          by (simp only: worker_not_exit not_False_eq_True)
      qed
      from that(1) order show "i \<in> set order" by simp
      then have "?futures ! i = ?w i" by (rule nth)
      with that(2) show "?futures ! i = Inl (Exception cls exc)" by simp
    qed
    then show ?thesis
      by (simp only: aggregator_log set_append Un_iff simp_thms)
  qed
  ultimately show ?thesis
    using fst_run by (intro exI [of _ "sort_key ?key (?in order)"] exI [of _ "snd ?run"])
      (simp add: prod_eq_iff)
qed

theorem raising_worker_is_logged_and_dropped_witness:
  "mset [1, 0] = mset [0..<length [''Intro'', ''Summary'']]
   \<and> (\<exists>sections log.
         call_second_interaction_parallel null_posts [1, 0] ''i2'' ''tok'' (JStr ''T'')
             [''Intro'', ''Summary''] = (Inr sections, log)
         \<and> length sections = 1
         \<and> Print (JStr (''Error occurred while processing outline Intro: ''
                          @ quoted ''NoneType'' @ '' object has no attribute '' @ quoted ''get''))
             \<in> set log)"
proof -
  have h: "mset [1, 0] = mset [0..<length [''Intro'', ''Summary'']]"
    by (simp add: upt_rec)
  have w0: "worker null_posts ''i2'' ''tok'' (JStr ''T'') [''Intro'', ''Summary''] 0
              = Inl (Exception ''AttributeError''
                       (quoted ''NoneType'' @ '' object has no attribute '' @ quoted ''get''))"
    by (simp add: worker_def call_second_outline_def execute_interaction_def null_posts_def
          ok_response_def quiet_def Let_def)
  have w1: "worker null_posts ''i2'' ''tok'' (JStr ''T'') [''Intro'', ''Summary''] (Suc 0)
              = Inr \<lparr>title = ''Summary'', subsections = JArr []\<rparr>"
    by (simp add: worker_def call_second_outline_def execute_interaction_def null_posts_def
          error_value_def quiet_def Let_def)
  have n: "length (filter (\<lambda>i. isl (worker null_posts ''i2'' ''tok'' (JStr ''T'')
                                     [''Intro'', ''Summary''] i))
                     [0..<length [''Intro'', ''Summary'']]) = 1"
    by (simp add: upt_rec w0 w1)
  from raising_worker_is_logged_and_dropped
         [OF h, of null_posts "''i2''" "''tok''" "JStr ''T''"]
  obtain sections log where run:
      "call_second_interaction_parallel null_posts [1, 0] ''i2'' ''tok'' (JStr ''T'')
         [''Intro'', ''Summary''] = (Inr sections, log)"
    and len: "length sections
                = length [''Intro'', ''Summary'']
                  - length (filter (\<lambda>i. isl (worker null_posts ''i2'' ''tok'' (JStr ''T'')
                                              [''Intro'', ''Summary''] i))
                              [0..<length [''Intro'', ''Summary'']])"
    and log: "\<forall>i < length [''Intro'', ''Summary'']. \<forall>cls exc.
                worker null_posts ''i2'' ''tok'' (JStr ''T'') [''Intro'', ''Summary''] i
                  = Inl (Exception cls exc) \<longrightarrow>
                Print (JStr (''Error occurred while processing outline ''
                               @ [''Intro'', ''Summary''] ! i @ '': '' @ exc)) \<in> set log"
    by blast
  from len n have "length sections = 1" by simp
  moreover from log w0
  have "Print (JStr (''Error occurred while processing outline ''
                       @ [''Intro'', ''Summary''] ! 0 @ '': ''
                       @ (quoted ''NoneType'' @ '' object has no attribute '' @ quoted ''get'')))
          \<in> set log"
    by (metis length_Cons zero_less_Suc)
  then have "Print (JStr (''Error occurred while processing outline Intro: ''
                       @ quoted ''NoneType'' @ '' object has no attribute '' @ quoted ''get''))
          \<in> set log"
    by simp
  ultimately show ?thesis using h run by blast
qed


text \<open>
  C6, as stated, fails: the answer \<^verbatim>\<open>{"result": null}\<close> to the first item is a body
  without a \<^verbatim>\<open>second_level_outline\<close> field, and no section for that item is returned.
\<close>

theorem null_result_counterexample:
  "fst (call_second_interaction_parallel null_posts [1, 0] ''i2'' ''tok'' (JStr ''T'')
          [''Intro'', ''Summary''])
     = Inr [\<lparr>title = ''Summary'', subsections = JArr []\<rparr>]"
  by (simp add: call_second_interaction_parallel_def call_second_outline_def
        execute_interaction_def null_posts_def ok_response_def error_value_def quiet_def
        sorted_key_def py_index_def Let_def)

text \<open>
  C6, amended. For every outline item whose second-stage call ends in an error value
  (status other than 200, body that is not JSON, timeout, transport failure) or in a body
  that is a JSON object whose \<^verbatim>\<open>result\<close> is absent or is an object without a
  \<^verbatim>\<open>second_level_outline\<close> field, the worker returns, and the aggregator keeps, a
  section whose title is the item and whose subsections are the empty list.
\<close>

theorem tolerated_failure_keeps_empty_section:
  assumes "mset order = mset [0..<length first_level_outline]"
    and "i < length first_level_outline"
    and "tolerated (posts i)"
  shows "worker posts second_interaction_id token transcript first_level_outline i
           = Inr \<lparr>title = first_level_outline ! i, subsections = JArr []\<rparr>
         \<and> (\<exists>sections.
               fst (call_second_interaction_parallel posts order second_interaction_id token
                      transcript first_level_outline) = Inr sections
               \<and> \<lparr>title = first_level_outline ! i, subsections = JArr []\<rparr> \<in> set sections)"
proof -
  have w: "worker posts second_interaction_id token transcript first_level_outline i
             = Inr \<lparr>title = first_level_outline ! i, subsections = JArr []\<rparr>"
    unfolding worker_def using assms(3) by (rule tolerated_worker)
  from assms(1,2) have "i \<in> set order"
    by (simp add: perm_upt_subset)
  with w have "\<lparr>title = first_level_outline ! i, subsections = JArr []\<rparr>
                 \<in> set (sections_in posts second_interaction_id token transcript
                           first_level_outline order)"
    by (auto simp: sections_in_worker)
  with w show ?thesis
    by (simp add: aggregator_result [OF assms(1)])
qed

theorem tolerated_failure_keeps_empty_section_witness:
  "mset [1, 0] = mset [0..<length [''Intro'', ''Summary'']]
   \<and> tolerated (null_posts 1)
   \<and> worker null_posts ''i2'' ''tok'' (JStr ''T'') [''Intro'', ''Summary''] 1
       = Inr \<lparr>title = ''Summary'', subsections = JArr []\<rparr>"
proof -
  have h: "mset [1, 0] = mset [0..<length [''Intro'', ''Summary'']]"
    by (simp add: upt_rec)
  have i: "1 < length [''Intro'', ''Summary'']"
    by simp
  have t: "tolerated (null_posts 1)"
    by (simp add: tolerated_def null_posts_def)
  from tolerated_failure_keeps_empty_section
         [where posts = null_posts and i = 1 and second_interaction_id = "''i2''"
            and token = "''tok''" and transcript = "JStr ''T''", OF h i t] h t
  show ?thesis by simp
qed

end
